theory Spec2Isabelle
  imports Main
begin

section \<open>The xl driver of nova/virt/xl/driver.py\<close>

text \<open>
  The driver manages Xen domains by spawning the \<^verbatim>\<open>xl\<close> command line tool and reading
  its output. The embedding keeps the structure of the Python source:
  \<^item> Python \<^verbatim>\<open>str\<close> is \<^typ>\<open>string\<close>; one \<^typ>\<open>char\<close> stands for one code point of the
    decoded text, so the model covers text whose code points lie below 256;
  \<^item> an exception is a value of \<open>exn\<close>, and a method that may raise returns \<open>exn + 'a\<close>
    (\<open>Inl\<close> the exception);
  \<^item> the operating system is an environment \<open>env\<close> that answers every process the
    driver spawns, given the processes spawned before;
  \<^item> the effects of a method are recorded in a \<open>world\<close>: the command lines handed to
    \<^verbatim>\<open>subprocess.run\<close> and the records handed to the logger.
\<close>

subsection \<open>Python string operations used by the driver\<close>

abbreviation LF :: char where "LF \<equiv> CHR 0x0A"
abbreviation CR :: char where "CR \<equiv> CHR 0x0D"

text \<open>\<^verbatim>\<open>str.isspace\<close> on one character, for code points below 256.\<close>

definition is_space :: "char \<Rightarrow> bool" where
  "is_space c = (c \<in> set [CHR 0x09, CHR 0x0A, CHR 0x0B, CHR 0x0C, CHR 0x0D,
                           CHR 0x1C, CHR 0x1D, CHR 0x1E, CHR 0x1F, CHR 0x20,
                           CHR 0x85, CHR 0xA0])"

text \<open>The line boundaries of \<^verbatim>\<open>str.splitlines\<close> below 256, \<^verbatim>\<open>\r\<close> apart.\<close>

definition is_linebreak :: "char \<Rightarrow> bool" where
  "is_linebreak c = (c \<in> set [CHR 0x0A, CHR 0x0B, CHR 0x0C,
                               CHR 0x1C, CHR 0x1D, CHR 0x1E, CHR 0x85])"

text \<open>
  \<^verbatim>\<open>s.splitlines()\<close>: the lines of \<open>s\<close> without their line ends; \<^verbatim>\<open>\r\n\<close> is one
  boundary; a final line end opens no further line, and the empty string has no line.
  The first argument is the line read so far.
\<close>

fun splitlines_from :: "string \<Rightarrow> string \<Rightarrow> string list" where
  "splitlines_from cur [] = (if cur = [] then [] else [cur])"
| "splitlines_from cur (c # cs) =
     (if c = CR then
        (case cs of
           [] \<Rightarrow> [cur]
         | d # ds \<Rightarrow> if d = LF then cur # splitlines_from [] ds
                     else cur # splitlines_from [] (d # ds))
      else if is_linebreak c then cur # splitlines_from [] cs
      else splitlines_from (cur @ [c]) cs)"

definition splitlines :: "string \<Rightarrow> string list" where
  "splitlines s = splitlines_from [] s"

text \<open>
  \<^verbatim>\<open>s.split()\<close>: the maximal runs of characters that are not whitespace. The first
  argument is the token read so far.
\<close>

fun split_from :: "string \<Rightarrow> string \<Rightarrow> string list" where
  "split_from cur [] = (if cur = [] then [] else [cur])"
| "split_from cur (c # cs) =
     (if is_space c then (if cur = [] then split_from [] cs else cur # split_from [] cs)
      else split_from (cur @ [c]) cs)"

definition split :: "string \<Rightarrow> string list" where
  "split s = split_from [] s"

text \<open>\<^verbatim>\<open>s.split(sep)\<close> for a separator of one character: empty fields are kept.\<close>

fun split_on :: "char \<Rightarrow> string \<Rightarrow> string list" where
  "split_on sep [] = [[]]"
| "split_on sep (c # cs) =
     (if c = sep then [] # split_on sep cs
      else (case split_on sep cs of
              [] \<Rightarrow> [[c]]
            | x # xs \<Rightarrow> (c # x) # xs))"

text \<open>\<^verbatim>\<open>s.strip()\<close>: whitespace removed at both ends.\<close>

definition strip :: "string \<Rightarrow> string" where
  "strip s = rev (dropWhile is_space (rev (dropWhile is_space s)))"

text \<open>\<^verbatim>\<open>s.startswith(p)\<close> and the substring test \<^verbatim>\<open>sub in s\<close>.\<close>

fun startswith :: "string \<Rightarrow> string \<Rightarrow> bool" where
  "startswith s [] = True"
| "startswith [] (p # ps) = False"
| "startswith (c # cs) (p # ps) = (c = p \<and> startswith cs ps)"

fun contains :: "string \<Rightarrow> string \<Rightarrow> bool" where
  "contains sub [] = (sub = [])"
| "contains sub (c # cs) = (startswith (c # cs) sub \<or> contains sub cs)"

text \<open>\<^verbatim>\<open>sep.join(xs)\<close>.\<close>

fun join :: "string \<Rightarrow> string list \<Rightarrow> string" where
  "join sep [] = []"
| "join sep [x] = x"
| "join sep (x # y # ys) = x @ sep @ join sep (y # ys)"

text \<open>
  \<^verbatim>\<open>int(s)\<close> for a string \<open>s\<close> that \<^verbatim>\<open>strip()\<close> has already trimmed: an optional
  sign, then decimal digits, where single underscores may stand between digits.
  \<open>None\<close> is Python's \<^verbatim>\<open>ValueError\<close>. (The interpreter's configurable limit on the
  number of digits is not modelled.)
\<close>

definition is_digit :: "char \<Rightarrow> bool" where
  "is_digit c = (c \<in> set ''0123456789'')"

definition digit_val :: "char \<Rightarrow> nat" where
  "digit_val c = of_char c - of_char (CHR ''0'')"

fun digits_ok :: "bool \<Rightarrow> string \<Rightarrow> bool" where
  "digits_ok prev [] = prev"
| "digits_ok prev (c # cs) =
     (if is_digit c then digits_ok True cs
      else c = CHR ''_'' \<and> prev \<and> digits_ok False cs)"

definition digits_value :: "string \<Rightarrow> nat" where
  "digits_value s = foldl (\<lambda>a c. 10 * a + digit_val c) 0 (filter (\<lambda>c. c \<noteq> CHR ''_'') s)"

definition nat_literal :: "string \<Rightarrow> nat option" where
  "nat_literal s = (if digits_ok False s then Some (digits_value s) else None)"

definition py_int :: "string \<Rightarrow> int option" where
  "py_int s =
     (case s of
        [] \<Rightarrow> None
      | c # cs \<Rightarrow>
          if c = CHR ''-'' then map_option (\<lambda>n. - int n) (nat_literal cs)
          else if c = CHR ''+'' then map_option int (nat_literal cs)
          else map_option int (nat_literal s))"

text \<open>\<^verbatim>\<open>str(i)\<close> for an integer, as an f-string formats it.\<close>

definition digit_char :: "nat \<Rightarrow> char" where
  "digit_char d = char_of (of_char (CHR ''0'') + d)"

fun str_nat :: "nat \<Rightarrow> string" where
  "str_nat n = (if n < 10 then [digit_char n] else str_nat (n div 10) @ [digit_char (n mod 10)])"

definition str_int :: "int \<Rightarrow> string" where
  "str_int i = (if i < 0 then CHR ''-'' # str_nat (nat (- i)) else str_nat (nat i))"

text \<open>\<^verbatim>\<open>os.path.join(a, b)\<close> on POSIX, for two components.\<close>

definition path_join :: "string \<Rightarrow> string \<Rightarrow> string" where
  "path_join a b =
     (if startswith b ''/'' then b
      else if a = [] \<or> last a = CHR ''/'' then a @ b
      else a @ ''/'' @ b)"

subsection \<open>Exceptions, processes and the recorded effects\<close>

text \<open>
  The exceptions that can reach the driver's code. All of them are subclasses of
  Python's \<^verbatim>\<open>Exception\<close>. \<open>NovaException\<close> and \<open>InstanceNotFound\<close> carry the argument
  the driver constructs them with; \<open>CalledProcessError\<close> carries return code, command
  line, captured output and captured stderr (\<open>None\<close> for a stream that was not
  captured); \<open>FileNotFoundError\<close> and \<open>PermissionError\<close> are the \<^verbatim>\<open>OSError\<close>s of
  a process that cannot be started.
\<close>

datatype exn =
    NovaException "string option"
  | InstanceNotFound string
  | CalledProcessError int "string list" "string option" "string option"
  | FileNotFoundError
  | PermissionError
  | JSONDecodeError
  | KeyError
  | IndexError
  | TypeError
  | ValueError

text \<open>
  What happens when a command line is handed to \<^verbatim>\<open>subprocess.run\<close>: the process runs
  to an exit status, having written its two output streams, or \<^verbatim>\<open>subprocess.run\<close>
  itself raises because no process could be started.
\<close>

datatype proc_outcome =
    Exited int string string
  | Raised exn

text \<open>The environment: the outcome of a command line, given the command lines run before it.\<close>

type_synonym env = "string list list \<Rightarrow> string list \<Rightarrow> proc_outcome"

record completed =
  returncode :: int
  stdout :: string
  stderr :: string

datatype level = DEBUG | WARNING | ERROR | EXCEPTION

datatype log_arg = ArgStr "string option" | ArgExn exn

record world =
  cmds :: "string list list"
  logs :: "(level \<times> string \<times> log_arg list) list"

definition log :: "level \<Rightarrow> string \<Rightarrow> log_arg list \<Rightarrow> world \<Rightarrow> world" where
  "log lv msg args w = w\<lparr>logs := logs w @ [(lv, msg, args)]\<rparr>"

text \<open>
  \<^verbatim>\<open>subprocess.run(argv, check=True)\<close>, with both streams piped and decoded when
  \<open>capture\<close> holds. The command line is recorded whether or not a process starts.
  With \<^verbatim>\<open>check=True\<close> an exit status other than 0 raises \<open>CalledProcessError\<close>.
\<close>

definition subprocess_run ::
  "bool \<Rightarrow> env \<Rightarrow> string list \<Rightarrow> world \<Rightarrow> (exn + completed) \<times> world" where
  "subprocess_run capture env argv w =
     (let w' = w\<lparr>cmds := cmds w @ [argv]\<rparr> in
      case env (cmds w) argv of
        Raised e \<Rightarrow> (Inl e, w')
      | Exited rc out err \<Rightarrow>
          if rc \<noteq> 0 then
            (Inl (CalledProcessError rc argv
                    (if capture then Some out else None)
                    (if capture then Some err else None)), w')
          else (Inr \<lparr>returncode = rc, stdout = out, stderr = err\<rparr>, w'))"

subsection \<open>The driver\<close>

definition path_xl :: string where
  "path_xl = ''/usr/local/sbin/xl''"

text \<open>
  \<^verbatim>\<open>_execute_xl\<close> (lines 53-68): the command line is logged, run with both streams
  captured and \<^verbatim>\<open>check=True\<close>; a \<open>CalledProcessError\<close> is logged and replaced by a
  \<open>NovaException\<close> built from its stderr. No other exception is handled here.
\<close>

definition execute_xl :: "env \<Rightarrow> string list \<Rightarrow> world \<Rightarrow> (exn + completed) \<times> world" where
  "execute_xl env cmd w =
     (let xl_cmd = path_xl # cmd;
          w1 = log DEBUG ''Executing: %s'' [ArgStr (Some (join '' '' xl_cmd))] w
      in case subprocess_run True env xl_cmd w1 of
           (Inr r, w2) \<Rightarrow> (Inr r, w2)
         | (Inl e, w2) \<Rightarrow>
             (case e of
                CalledProcessError rc c out err \<Rightarrow>
                  (Inl (NovaException err),
                   log ERROR ''xl command failed: %s'' [ArgStr err] w2)
              | _ \<Rightarrow> (Inl e, w2)))"

text \<open>The fields of a Nova instance object that the driver reads.\<close>

record nova_instance =
  name :: string
  uuid :: string
  flavor_memory_mb :: int
  flavor_vcpus :: int

text \<open>\<^verbatim>\<open>reboot\<close> (lines 128-134). The method returns nothing, so success is \<open>Inr ()\<close>.\<close>

definition reboot :: "env \<Rightarrow> nova_instance \<Rightarrow> string \<Rightarrow> world \<Rightarrow> (exn + unit) \<times> world" where
  "reboot env inst reboot_type w =
     (case (if reboot_type = ''SOFT'' then execute_xl env [''reboot'', name inst] w
            else execute_xl env [''reset'', name inst] w) of
        (Inl e, w') \<Rightarrow> (Inl e, w')
      | (Inr r, w') \<Rightarrow> (Inr (), w'))"


text \<open>
  \<^verbatim>\<open>destroy\<close> (lines 113-126). Every exception of the \<^verbatim>\<open>xl destroy\<close> call is caught
  and logged as a warning. The removal of the instance directory runs \<^verbatim>\<open>rm -rf\<close>
  without capturing its streams; of its exceptions only \<open>CalledProcessError\<close> is caught.
\<close>

definition destroy :: "env \<Rightarrow> nova_instance \<Rightarrow> bool \<Rightarrow> world \<Rightarrow> (exn + unit) \<times> world" where
  "destroy env inst destroy_disks w =
     (let w1 = (case execute_xl env [''destroy'', name inst] w of
                  (Inr r, w') \<Rightarrow> w'
                | (Inl e, w') \<Rightarrow> log WARNING ''Instance destroy failed: %s'' [ArgExn e] w')
      in if destroy_disks then
           (let instance_dir = path_join ''/etc/xen'' (name inst) in
            case subprocess_run False env [''rm'', ''-rf'', instance_dir] w1 of
              (Inr r, w2) \<Rightarrow> (Inr (), w2)
            | (Inl e, w2) \<Rightarrow>
                (case e of
                   CalledProcessError rc c out err \<Rightarrow>
                     (Inr (), log WARNING ''Failed to remove instance directory: %s'' [ArgExn e] w2)
                 | _ \<Rightarrow> (Inl e, w2)))
         else (Inr (), w1))"

subsection \<open>Queries\<close>

text \<open>
  Modelled from the spec: the constants of \<^verbatim>\<open>nova.compute.power_state\<close>, which the
  driver imports and which are not part of the source file. The spec gives the
  canonical enumeration RUNNING, PAUSED, SHUTDOWN, CRASHED, NOSTATE.
\<close>

datatype power_state = NOSTATE | RUNNING | PAUSED | SHUTDOWN | CRASHED

text \<open>\<^verbatim>\<open>POWER_STATE_MAP\<close> (lines 32-39), a dict with string keys.\<close>

definition POWER_STATE_MAP :: "(string \<times> power_state) list" where
  "POWER_STATE_MAP = [
     (''running'', RUNNING),
     (''blocked'', RUNNING),
     (''paused'', PAUSED),
     (''shutdown'', SHUTDOWN),
     (''crashed'', CRASHED),
     (''dying'', CRASHED)
   ]"

text \<open>
  The Python values that \<^verbatim>\<open>json.loads\<close> returns. A float is a value of the abstract
  type \<open>'f\<close>. \<open>PDict\<close> lists the items of a dict, each key once; the keys of a decoded
  JSON object are strings.
\<close>

datatype 'f pyval =
    PNone
  | PBool bool
  | PInt int
  | PFloat 'f
  | PStr string
  | PList "'f pyval list"
  | PDict "(string \<times> 'f pyval) list"

text \<open>
  What \<^verbatim>\<open>get_info\<close> needs of the Python runtime: \<^verbatim>\<open>json.loads\<close> (\<open>Inl\<close> the exception it
  raises on text that is not JSON), whether a float is zero, and a float times an integer.
\<close>

record 'f runtime =
  loads :: "string \<Rightarrow> exn + 'f pyval"
  float_is_zero :: "'f \<Rightarrow> bool"
  float_times :: "'f \<Rightarrow> int \<Rightarrow> 'f"

text \<open>The truth value of a Python value, as \<^verbatim>\<open>not data\<close> tests it.\<close>

fun truthy :: "'f runtime \<Rightarrow> 'f pyval \<Rightarrow> bool" where
  "truthy rt PNone = False"
| "truthy rt (PBool b) = b"
| "truthy rt (PInt i) = (i \<noteq> 0)"
| "truthy rt (PFloat f) = (\<not> float_is_zero rt f)"
| "truthy rt (PStr s) = (s \<noteq> [])"
| "truthy rt (PList xs) = (xs \<noteq> [])"
| "truthy rt (PDict kvs) = (kvs \<noteq> [])"

text \<open>\<^verbatim>\<open>data[0]\<close>: the first element of a list, the first character of a string.\<close>

fun index0 :: "'f pyval \<Rightarrow> exn + 'f pyval" where
  "index0 (PList []) = Inl IndexError"
| "index0 (PList (x # xs)) = Inr x"
| "index0 (PStr []) = Inl IndexError"
| "index0 (PStr (c # cs)) = Inr (PStr [c])"
| "index0 (PDict kvs) = Inl KeyError"
| "index0 v = Inl TypeError"

text \<open>\<^verbatim>\<open>v[key]\<close> for a string key: only a dict can be subscripted by a string.\<close>

fun getitem :: "'f pyval \<Rightarrow> string \<Rightarrow> exn + 'f pyval" where
  "getitem (PDict kvs) key = (case map_of kvs key of None \<Rightarrow> Inl KeyError | Some v \<Rightarrow> Inr v)"
| "getitem v key = Inl TypeError"

text \<open>
  \<^verbatim>\<open>POWER_STATE_MAP.get(state, power_state.NOSTATE)\<close>: a list or a dict is not hashable;
  a hashable value that is not one of the keys gives the default.
\<close>

fun power_state_get :: "'f pyval \<Rightarrow> exn + power_state" where
  "power_state_get (PStr s) =
     Inr (case map_of POWER_STATE_MAP s of None \<Rightarrow> NOSTATE | Some p \<Rightarrow> p)"
| "power_state_get (PList xs) = Inl TypeError"
| "power_state_get (PDict kvs) = Inl TypeError"
| "power_state_get v = Inr NOSTATE"

text \<open>\<^verbatim>\<open>v * units.Ki\<close>, where \<^verbatim>\<open>units.Ki\<close> is 1024: a string or a list is repeated.\<close>

definition Ki :: int where
  "Ki = 1024"

fun times_Ki :: "'f runtime \<Rightarrow> 'f pyval \<Rightarrow> exn + 'f pyval" where
  "times_Ki rt (PBool b) = Inr (PInt ((if b then 1 else 0) * Ki))"
| "times_Ki rt (PInt i) = Inr (PInt (i * Ki))"
| "times_Ki rt (PFloat f) = Inr (PFloat (float_times rt f Ki))"
| "times_Ki rt (PStr s) = Inr (PStr (concat (replicate (nat Ki) s)))"
| "times_Ki rt (PList xs) = Inr (PList (concat (replicate (nat Ki) xs)))"
| "times_Ki rt v = Inl TypeError"

record 'f instance_info =
  state :: power_state
  max_mem :: "'f pyval"
  mem :: "'f pyval"
  num_cpu :: "'f pyval"
  cpu_time :: int

text \<open>
  The dict literal that \<^verbatim>\<open>get_info\<close> returns (lines 148-154); its values are evaluated
  in the order written.
\<close>

definition info_of :: "'f runtime \<Rightarrow> 'f pyval \<Rightarrow> 'f pyval \<Rightarrow> exn + 'f instance_info" where
  "info_of rt domain_info st =
     (case power_state_get st of
        Inl e \<Rightarrow> Inl e
      | Inr p \<Rightarrow>
     (case getitem domain_info ''maxmem'' of
        Inl e \<Rightarrow> Inl e
      | Inr mm \<Rightarrow>
     (case times_Ki rt mm of
        Inl e \<Rightarrow> Inl e
      | Inr max_mem_v \<Rightarrow>
     (case getitem domain_info ''mem'' of
        Inl e \<Rightarrow> Inl e
      | Inr m \<Rightarrow>
     (case times_Ki rt m of
        Inl e \<Rightarrow> Inl e
      | Inr mem_v \<Rightarrow>
     (case getitem domain_info ''vcpus'' of
        Inl e \<Rightarrow> Inl e
      | Inr n \<Rightarrow>
          Inr \<lparr>state = p, max_mem = max_mem_v, mem = mem_v,
               num_cpu = n, cpu_time = 0\<rparr>))))))"

text \<open>The body of the \<^verbatim>\<open>try\<close> block of \<^verbatim>\<open>get_info\<close> (lines 139-154).\<close>

definition get_info_try ::
  "'f runtime \<Rightarrow> env \<Rightarrow> nova_instance \<Rightarrow> world \<Rightarrow> (exn + 'f instance_info) \<times> world" where
  "get_info_try rt env inst w =
     (case execute_xl env [''list'', ''-l'', name inst] w of
        (Inl e, w1) \<Rightarrow> (Inl e, w1)
      | (Inr out, w1) \<Rightarrow>
          (case loads rt (stdout out) of
             Inl e \<Rightarrow> (Inl e, w1)
           | Inr data \<Rightarrow>
               if \<not> truthy rt data then (Inl (InstanceNotFound (uuid inst)), w1)
               else
                 (case index0 data of
                    Inl e \<Rightarrow> (Inl e, w1)
                  | Inr domain_info \<Rightarrow>
                      (case getitem domain_info ''state'' of
                         Inl e \<Rightarrow> (Inl e, w1)
                       | Inr st \<Rightarrow> (info_of rt domain_info st, w1)))))"

text \<open>
  \<^verbatim>\<open>get_info\<close> (lines 136-157): \<^verbatim>\<open>except Exception\<close> catches every exception of the
  body, logs it and raises \<open>InstanceNotFound\<close> for the instance's uuid.
\<close>

definition get_info ::
  "'f runtime \<Rightarrow> env \<Rightarrow> nova_instance \<Rightarrow> world \<Rightarrow> (exn + 'f instance_info) \<times> world" where
  "get_info rt env inst w =
     (case get_info_try rt env inst w of
        (Inr info, w1) \<Rightarrow> (Inr info, w1)
      | (Inl e, w1) \<Rightarrow>
          (Inl (InstanceNotFound (uuid inst)),
           log EXCEPTION ''Error getting instance info'' [] w1))"

text \<open>
  The loop of \<^verbatim>\<open>list_instances\<close> (lines 165-167): \<^verbatim>\<open>line.split()[0]\<close> raises
  \<open>IndexError\<close> on a line without a token.
\<close>

fun names_loop :: "string list \<Rightarrow> string list \<Rightarrow> exn + string list" where
  "names_loop [] instances = Inr instances"
| "names_loop (line # rest) instances =
     (case split line of
        [] \<Rightarrow> Inl IndexError
      | nm # toks \<Rightarrow> names_loop rest (instances @ [nm]))"

text \<open>\<^verbatim>\<open>list_instances\<close> (lines 159-169); \<^verbatim>\<open>[1:]\<close> of a list drops its first element, if any.\<close>

definition list_instances :: "env \<Rightarrow> world \<Rightarrow> (exn + string list) \<times> world" where
  "list_instances env w =
     (case execute_xl env [''list''] w of
        (Inl e, w1) \<Rightarrow> (Inl e, w1)
      | (Inr out, w1) \<Rightarrow> (names_loop (drop 1 (splitlines (stdout out))) [], w1))"

text \<open>\<^verbatim>\<open>int(line.split(':')[1].strip())\<close> (lines 180 and 182).\<close>

definition kb_value :: "string \<Rightarrow> exn + int" where
  "kb_value line =
     (case split_on (CHR '':'') line of
        a # b # others \<Rightarrow> (case py_int (strip b) of None \<Rightarrow> Inl ValueError | Some v \<Rightarrow> Inr v)
      | _ \<Rightarrow> Inl IndexError)"

text \<open>
  The loop over the lines of the memory query (lines 178-182), from the current values
  of \<^verbatim>\<open>total_memory_kb\<close> and \<^verbatim>\<open>free_memory_kb\<close>.
\<close>

fun memory_loop :: "string list \<Rightarrow> int \<times> int \<Rightarrow> exn + int \<times> int" where
  "memory_loop [] (total_memory_kb, free_memory_kb) = Inr (total_memory_kb, free_memory_kb)"
| "memory_loop (line # rest) (total_memory_kb, free_memory_kb) =
     (if contains ''total_memory'' line then
        (case kb_value line of
           Inl e \<Rightarrow> Inl e
         | Inr v \<Rightarrow> memory_loop rest (v, free_memory_kb))
      else if contains ''free_memory'' line then
        (case kb_value line of
           Inl e \<Rightarrow> Inl e
         | Inr v \<Rightarrow> memory_loop rest (total_memory_kb, v))
      else memory_loop rest (total_memory_kb, free_memory_kb))"

record resources =
  vcpus :: int
  vcpus_used :: int
  memory_mb :: int
  memory_mb_used :: int
  local_gb :: int
  local_gb_used :: int
  disk_available_least :: int
  hypervisor_type :: string
  hypervisor_version :: int
  hypervisor_hostname :: string
  cpu_info :: string
  supported_instances :: "string list"
  numa_topology :: "string option"

text \<open>\<^verbatim>\<open>get_available_resource\<close> (lines 171-202); \<^verbatim>\<open>//\<close> is floor division, as \<open>div\<close> on \<^typ>\<open>int\<close>.\<close>

definition get_available_resource :: "env \<Rightarrow> string \<Rightarrow> world \<Rightarrow> (exn + resources) \<times> world" where
  "get_available_resource env nodename w =
     (case execute_xl env [''info'', ''-n''] w of
        (Inl e, w1) \<Rightarrow> (Inl e, w1)
      | (Inr memory_info, w1) \<Rightarrow>
          (case memory_loop (splitlines (stdout memory_info)) (0, 0) of
             Inl e \<Rightarrow> (Inl e, w1)
           | Inr (total_memory_kb, free_memory_kb) \<Rightarrow>
               (case execute_xl env [''info'', ''-n'', ''cpu''] w1 of
                  (Inl e, w2) \<Rightarrow> (Inl e, w2)
                | (Inr cpu_info_out, w2) \<Rightarrow>
                    (let num_cpus = int (length (splitlines (stdout cpu_info_out))) in
                     (Inr \<lparr>vcpus = num_cpus,
                           vcpus_used = 0,
                           memory_mb = total_memory_kb div 1024,
                           memory_mb_used = (total_memory_kb - free_memory_kb) div 1024,
                           local_gb = 0,
                           local_gb_used = 0,
                           disk_available_least = 0,
                           hypervisor_type = ''xen'',
                           hypervisor_version = 4181,
                           hypervisor_hostname = nodename,
                           cpu_info = ''{}'',
                           supported_instances = [],
                           numa_topology = None\<rparr>, w2)))))"

subsection \<open>Reading a configuration back\<close>




subsection \<open>Concrete environments and instances for the examples\<close>

definition env_const :: "proc_outcome \<Rightarrow> env" where
  "env_const r h argv = r"

definition world0 :: world where
  "world0 = \<lparr>cmds = [], logs = []\<rparr>"

definition vm1 :: nova_instance where
  "vm1 = \<lparr>name = ''vm1'', uuid = ''2f6c'', flavor_memory_mb = 512, flavor_vcpus = 2\<rparr>"

text \<open>Every command exits with status 1.\<close>

definition env_all_fail :: env where
  "env_all_fail h argv = Exited 1 [] ''failed''"

text \<open>\<^verbatim>\<open>xl\<close> exits with status 1, and \<^verbatim>\<open>rm\<close> cannot be started.\<close>

definition env_rm_missing :: env where
  "env_rm_missing h argv =
     (if argv = [''rm'', ''-rf'', ''/etc/xen/vm1''] then Raised FileNotFoundError
      else Exited 1 [] ''invalid domain identifier'')"

text \<open>A runtime whose \<^verbatim>\<open>json.loads\<close> knows the empty array only.\<close>

definition rt0 :: "unit runtime" where
  "rt0 = \<lparr>loads = (\<lambda>s. if s = ''[]'' then Inr (PList []) else Inl JSONDecodeError),
          float_is_zero = (\<lambda>f. True), float_times = (\<lambda>f i. f)\<rparr>"

text \<open>Every command exits with status 0 and the given output.\<close>

definition env_listing :: "string \<Rightarrow> env" where
  "env_listing out h argv = Exited 0 out []"

text \<open>The two queries of \<^verbatim>\<open>get_available_resource\<close> succeed with the given outputs.\<close>

definition env_info :: "string \<Rightarrow> string \<Rightarrow> env" where
  "env_info mem_out cpu_out h argv =
     (if argv = [''/usr/local/sbin/xl'', ''info'', ''-n''] then Exited 0 mem_out []
      else if argv = [''/usr/local/sbin/xl'', ''info'', ''-n'', ''cpu''] then Exited 0 cpu_out []
      else Exited 1 [] ''unknown command'')"






section \<open>Basic facts about running commands\<close>

lemma cmds_log [simp]: "cmds (log lv msg args w) = cmds w"
  by (simp add: log_def)

lemma subprocess_run_cmds [simp]:
  "cmds (snd (subprocess_run capture env argv w)) = cmds w @ [argv]"
  by (simp add: subprocess_run_def Let_def split: proc_outcome.split)

lemma execute_xl_cmds [simp]:
  "cmds (snd (execute_xl env cmd w)) = cmds w @ [path_xl # cmd]"
  by (simp add: execute_xl_def subprocess_run_def Let_def split: proc_outcome.split exn.split)

lemma execute_xl_exit0:
  "env (cmds w) (path_xl # cmd) = Exited 0 out err \<Longrightarrow>
   fst (execute_xl env cmd w) = Inr \<lparr>returncode = 0, stdout = out, stderr = err\<rparr>"
  by (simp add: execute_xl_def subprocess_run_def Let_def)

lemma execute_xl_nonzero:
  "env (cmds w) (path_xl # cmd) = Exited rc out err \<Longrightarrow> rc \<noteq> 0 \<Longrightarrow>
   fst (execute_xl env cmd w) = Inl (NovaException (Some err))"
  by (simp add: execute_xl_def subprocess_run_def Let_def)

lemma execute_xl_raised:
  "env (cmds w) (path_xl # cmd) = Raised e \<Longrightarrow>
   fst (execute_xl env cmd w) =
     (case e of CalledProcessError rc c out err \<Rightarrow> Inl (NovaException err) | _ \<Rightarrow> Inl e)"
  by (simp add: execute_xl_def subprocess_run_def Let_def split: exn.split)

lemma snd_drop_result:
  "snd (case p of (Inl e, w') \<Rightarrow> (Inl e, w') | (Inr r, w') \<Rightarrow> (Inr u, w')) = snd p"
  by (simp split: prod.split sum.split)

section \<open>The command executor\<close>

text \<open>
  Claim C4, as amended. Whenever the \<^verbatim>\<open>xl\<close> process exits with a status other than 0,
  \<open>execute_xl\<close> fails with a \<open>NovaException\<close> built from the captured stderr; the exit
  status is not part of that exception. Whenever the process cannot be started (binary
  missing, permission denied), the exception of \<^verbatim>\<open>subprocess.run\<close> reaches the caller
  as it is.
\<close>

theorem execute_xl_failure:
  "(env (cmds w) (path_xl # cmd) = Exited rc out err \<and> rc \<noteq> 0 \<longrightarrow>
      fst (execute_xl env cmd w) = Inl (NovaException (Some err))) \<and>
   (env (cmds w) (path_xl # cmd) = Raised FileNotFoundError \<longrightarrow>
      fst (execute_xl env cmd w) = Inl FileNotFoundError) \<and>
   (env (cmds w) (path_xl # cmd) = Raised PermissionError \<longrightarrow>
      fst (execute_xl env cmd w) = Inl PermissionError)"
  by (simp add: execute_xl_nonzero execute_xl_raised)

theorem execute_xl_failure_witness:
  "fst (execute_xl (env_const (Exited 1 ''out'' ''no such domain'')) [''destroy'', ''vm1''] world0)
     = Inl (NovaException (Some ''no such domain''))"
  using execute_xl_failure [of "env_const (Exited 1 ''out'' ''no such domain'')" world0
      "[''destroy'', ''vm1'']" 1 "''out''" "''no such domain''"]
  by (simp add: env_const_def)

text \<open>
  Claim C4 as stated fails: a process that cannot be started gives the raw
  \<open>FileNotFoundError\<close>, and exit statuses 1 and 2 with the same stderr give the same
  exception, which therefore does not carry the exit status.
\<close>

theorem execute_xl_counterexample:
  "fst (execute_xl (env_const (Raised FileNotFoundError)) [''list''] world0)
     = Inl FileNotFoundError \<and>
   fst (execute_xl (env_const (Exited 1 [] ''boom'')) [''list''] world0)
     = Inl (NovaException (Some ''boom'')) \<and>
   fst (execute_xl (env_const (Exited 2 [] ''boom'')) [''list''] world0)
     = Inl (NovaException (Some ''boom''))"
  by (simp add: execute_xl_def subprocess_run_def env_const_def Let_def)

section \<open>Lifecycle operations\<close>

lemma cmds_warn_on_error:
  "cmds (case p of (Inr r, w') \<Rightarrow> w'
                 | (Inl e, w') \<Rightarrow> log lv msg [ArgExn e] w') = cmds (snd p)"
  by (simp split: prod.split sum.split)

lemma destroy_w1_cmds:
  "cmds (case execute_xl env [''destroy'', name inst] w of
           (Inr r, w') \<Rightarrow> w'
         | (Inl e, w') \<Rightarrow> log WARNING ''Instance destroy failed: %s'' [ArgExn e] w')
     = cmds w @ [[path_xl, ''destroy'', name inst]]"
  unfolding cmds_warn_on_error by simp

lemma cmds_rm_handler:
  "cmds (snd (case p of
                (Inr r, w2) \<Rightarrow> (Inr (), w2)
              | (Inl e, w2) \<Rightarrow>
                  (case e of
                     CalledProcessError rc c out err \<Rightarrow>
                       (Inr (), log WARNING msg [ArgExn e] w2)
                   | _ \<Rightarrow> (Inl e, w2)))) = cmds (snd p)"
  by (simp split: prod.split sum.split exn.split)

lemma destroy_cmds_disks:
  "cmds (snd (destroy env inst True w)) =
     cmds w @ [[path_xl, ''destroy'', name inst],
               [''rm'', ''-rf'', path_join ''/etc/xen'' (name inst)]]"
  by (simp add: destroy_def Let_def cmds_rm_handler destroy_w1_cmds)

lemma destroy_cmds_no_disks:
  "cmds (snd (destroy env inst False w)) = cmds w @ [[path_xl, ''destroy'', name inst]]"
  by (simp add: destroy_def Let_def destroy_w1_cmds)

lemma destroy_no_disks: "fst (destroy env inst False w) = Inr ()"
  by (simp add: destroy_def Let_def)

lemma destroy_rm_exited:
  assumes "env (cmds w @ [[path_xl, ''destroy'', name inst]])
             [''rm'', ''-rf'', path_join ''/etc/xen'' (name inst)] = Exited rc out err"
  shows "fst (destroy env inst True w) = Inr ()"
  using assms
  by (simp add: destroy_def Let_def subprocess_run_def destroy_w1_cmds)

text \<open>
  When \<^verbatim>\<open>subprocess.run\<close> itself raises for \<^verbatim>\<open>rm\<close>, the exception leaves \<open>destroy\<close>
  unless it is a \<open>CalledProcessError\<close>.
\<close>

lemma destroy_rm_raised:
  assumes "env (cmds w @ [[path_xl, ''destroy'', name inst]])
             [''rm'', ''-rf'', path_join ''/etc/xen'' (name inst)] = Raised e"
  shows "fst (destroy env inst True w) =
           (case e of CalledProcessError rc c out err \<Rightarrow> Inr () | _ \<Rightarrow> Inl e)"
  using assms
  by (simp add: destroy_def Let_def subprocess_run_def destroy_w1_cmds split: exn.split)

text \<open>
  Claim C3. \<open>destroy\<close> is meant to be best effort: the \<^verbatim>\<open>xl destroy\<close> call is under
  \<^verbatim>\<open>except Exception\<close>, so even an \<^verbatim>\<open>xl\<close> that cannot be started is swallowed and
  the call returns normally. The removal of the instance directory is under
  \<^verbatim>\<open>except subprocess.CalledProcessError\<close> only: with \<^verbatim>\<open>xl destroy\<close> exiting 1 and an
  \<^verbatim>\<open>rm\<close> that cannot be started, the removal is attempted, it fails, and the
  \<open>FileNotFoundError\<close> leaves \<open>destroy\<close>, against the claim.
\<close>

theorem destroy_rm_start_failure:
  "fst (destroy (env_const (Raised FileNotFoundError)) vm1 False world0) = Inr () \<and>
   cmds (snd (destroy env_rm_missing vm1 True world0)) =
     [[''/usr/local/sbin/xl'', ''destroy'', ''vm1''], [''rm'', ''-rf'', ''/etc/xen/vm1'']] \<and>
   fst (destroy env_rm_missing vm1 True world0) = Inl FileNotFoundError"
  by (simp add: destroy_def execute_xl_def subprocess_run_def env_rm_missing_def env_const_def
        vm1_def world0_def path_join_def path_xl_def log_def Let_def)

text \<open>
  Claim C10. \<open>reboot\<close> runs \<^verbatim>\<open>xl reboot\<close> exactly when \<open>reboot_type\<close> is the string
  \<^verbatim>\<open>SOFT\<close>; for every other value, not only \<^verbatim>\<open>HARD\<close>, it runs \<^verbatim>\<open>xl reset\<close>.
\<close>

theorem reboot_command:
  "(reboot_type = ''SOFT'' \<longrightarrow>
      cmds (snd (reboot env inst reboot_type w)) = cmds w @ [[path_xl, ''reboot'', name inst]]) \<and>
   (reboot_type \<noteq> ''SOFT'' \<longrightarrow>
      cmds (snd (reboot env inst reboot_type w)) = cmds w @ [[path_xl, ''reset'', name inst]])"
  unfolding reboot_def snd_drop_result by simp

theorem reboot_command_witness:
  "cmds (snd (reboot (env_const (Exited 0 [] [])) vm1 ''soft'' world0))
     = [[''/usr/local/sbin/xl'', ''reset'', ''vm1'']] \<and>
   cmds (snd (reboot (env_const (Exited 0 [] [])) vm1 ''SOFT'' world0))
     = [[''/usr/local/sbin/xl'', ''reboot'', ''vm1'']]"
  using reboot_command [of "''soft''" "env_const (Exited 0 [] [])" vm1 world0]
        reboot_command [of "''SOFT''" "env_const (Exited 0 [] [])" vm1 world0]
  by (simp add: world0_def path_xl_def vm1_def)

section \<open>Queries about one domain\<close>

lemma fst_get_info:
  "fst (get_info rt env inst w) =
     (case fst (get_info_try rt env inst w) of
        Inr info \<Rightarrow> Inr info
      | Inl e \<Rightarrow> Inl (InstanceNotFound (uuid inst)))"
  by (simp add: get_info_def split: prod.split sum.split)

lemma fst_get_info_try:
  "fst (get_info_try rt env inst w) =
     (case fst (execute_xl env [''list'', ''-l'', name inst] w) of
        Inl e \<Rightarrow> Inl e
      | Inr out \<Rightarrow>
          (case loads rt (stdout out) of
             Inl e \<Rightarrow> Inl e
           | Inr data \<Rightarrow>
               if \<not> truthy rt data then Inl (InstanceNotFound (uuid inst))
               else
                 (case index0 data of
                    Inl e \<Rightarrow> Inl e
                  | Inr domain_info \<Rightarrow>
                      (case getitem domain_info ''state'' of
                         Inl e \<Rightarrow> Inl e
                       | Inr st \<Rightarrow> info_of rt domain_info st))))"
  by (simp add: get_info_try_def split: prod.split sum.split)

lemma get_info_try_failure:
  "fst (get_info_try rt env inst w) = Inl e \<Longrightarrow>
   fst (get_info rt env inst w) = Inl (InstanceNotFound (uuid inst))"
  by (simp add: fst_get_info)

lemma get_info_exec_raised:
  assumes "env (cmds w) [path_xl, ''list'', ''-l'', name inst] = Raised e"
  shows "fst (get_info rt env inst w) = Inl (InstanceNotFound (uuid inst))"
proof -
  have "\<exists>e'. fst (execute_xl env [''list'', ''-l'', name inst] w) = Inl e'"
    using execute_xl_raised [of env w "[''list'', ''-l'', name inst]" e] assms
    by (cases e) simp_all
  then show ?thesis
    by (auto simp add: fst_get_info fst_get_info_try)
qed

text \<open>
  Claim C2. \<open>get_info\<close> fails with \<open>InstanceNotFound\<close> when the listing decodes to the
  empty array, and every other failure of the query is surfaced as \<open>InstanceNotFound\<close>
  too: text that \<^verbatim>\<open>json.loads\<close> rejects, an \<^verbatim>\<open>xl\<close> process that exits non-zero, a
  process that cannot be started, and in general any exception of the body of the
  \<^verbatim>\<open>try\<close> block. No other exception leaves \<open>get_info\<close>.
\<close>

theorem get_info_not_found:
  "(env (cmds w) [path_xl, ''list'', ''-l'', name inst] = Exited 0 out err \<and>
    loads rt out = Inr (PList []) \<longrightarrow>
      fst (get_info rt env inst w) = Inl (InstanceNotFound (uuid inst))) \<and>
   (env (cmds w) [path_xl, ''list'', ''-l'', name inst] = Exited 0 out err \<and>
    loads rt out = Inl e \<longrightarrow>
      fst (get_info rt env inst w) = Inl (InstanceNotFound (uuid inst))) \<and>
   (env (cmds w) [path_xl, ''list'', ''-l'', name inst] = Exited rc out err \<and> rc \<noteq> 0 \<longrightarrow>
      fst (get_info rt env inst w) = Inl (InstanceNotFound (uuid inst))) \<and>
   (env (cmds w) [path_xl, ''list'', ''-l'', name inst] = Raised e \<longrightarrow>
      fst (get_info rt env inst w) = Inl (InstanceNotFound (uuid inst))) \<and>
   (fst (get_info_try rt env inst w) = Inl e \<longrightarrow>
      fst (get_info rt env inst w) = Inl (InstanceNotFound (uuid inst))) \<and>
   (fst (get_info rt env inst w) = Inl e \<longrightarrow> e = InstanceNotFound (uuid inst))"
proof (intro conjI impI)
  assume "env (cmds w) [path_xl, ''list'', ''-l'', name inst] = Exited 0 out err \<and>
    loads rt out = Inr (PList [])"
  then show "fst (get_info rt env inst w) = Inl (InstanceNotFound (uuid inst))"
    by (simp add: fst_get_info fst_get_info_try execute_xl_exit0)
next
  assume "env (cmds w) [path_xl, ''list'', ''-l'', name inst] = Exited 0 out err \<and>
    loads rt out = Inl e"
  then show "fst (get_info rt env inst w) = Inl (InstanceNotFound (uuid inst))"
    by (simp add: fst_get_info fst_get_info_try execute_xl_exit0)
next
  assume "env (cmds w) [path_xl, ''list'', ''-l'', name inst] = Exited rc out err \<and> rc \<noteq> 0"
  then show "fst (get_info rt env inst w) = Inl (InstanceNotFound (uuid inst))"
    by (simp add: fst_get_info fst_get_info_try execute_xl_nonzero)
next
  assume "env (cmds w) [path_xl, ''list'', ''-l'', name inst] = Raised e"
  then show "fst (get_info rt env inst w) = Inl (InstanceNotFound (uuid inst))"
    by (rule get_info_exec_raised)
next
  assume "fst (get_info_try rt env inst w) = Inl e"
  then show "fst (get_info rt env inst w) = Inl (InstanceNotFound (uuid inst))"
    by (rule get_info_try_failure)
next
  assume "fst (get_info rt env inst w) = Inl e"
  then show "e = InstanceNotFound (uuid inst)"
    by (simp add: fst_get_info split: sum.splits)
qed

theorem get_info_not_found_witness:
  "fst (get_info rt0 (env_const (Exited 0 ''[]'' [])) vm1 world0) = Inl (InstanceNotFound ''2f6c'') \<and>
   fst (get_info rt0 (env_const (Exited 0 ''oops'' [])) vm1 world0) = Inl (InstanceNotFound ''2f6c'') \<and>
   fst (get_info rt0 (env_const (Exited 1 [] ''no domain'')) vm1 world0) = Inl (InstanceNotFound ''2f6c'') \<and>
   fst (get_info rt0 (env_const (Raised PermissionError)) vm1 world0) = Inl (InstanceNotFound ''2f6c'')"
  using get_info_not_found [of "env_const (Exited 0 ''[]'' [])" world0 vm1 "''[]''" "[]" rt0 JSONDecodeError 0]
        get_info_not_found [of "env_const (Exited 0 ''oops'' [])" world0 vm1 "''oops''" "[]" rt0 JSONDecodeError 0]
        get_info_not_found [of "env_const (Exited 1 [] ''no domain'')" world0 vm1 "[]" "''no domain''" rt0 JSONDecodeError 1]
        get_info_not_found [of "env_const (Raised PermissionError)" world0 vm1 "[]" "[]" rt0 PermissionError 1]
  by (simp add: env_const_def rt0_def vm1_def)

lemma get_info_running:
  assumes "env (cmds w) [path_xl, ''list'', ''-l'', name inst] = Exited 0 out err"
    and "loads rt out = Inr (PList (PDict kvs # others))"
    and "map_of kvs ''state'' = Some (PStr tok)"
    and "map_of kvs ''maxmem'' = Some (PInt a)"
    and "map_of kvs ''mem'' = Some (PInt b)"
    and "map_of kvs ''vcpus'' = Some n"
  shows "fst (get_info rt env inst w) =
     Inr \<lparr>state = (case map_of POWER_STATE_MAP tok of None \<Rightarrow> NOSTATE | Some p \<Rightarrow> p),
          max_mem = PInt (a * 1024), mem = PInt (b * 1024), num_cpu = n, cpu_time = 0\<rparr>"
  using assms
  by (simp add: fst_get_info fst_get_info_try execute_xl_exit0 info_of_def Ki_def)

text \<open>
  Claim C1. The lookup in \<open>POWER_STATE_MAP\<close> with default \<open>NOSTATE\<close> is total on state
  tokens: the six known tokens give RUNNING, RUNNING, PAUSED, SHUTDOWN, CRASHED, CRASHED,
  every other token gives \<open>NOSTATE\<close>, and no token raises. A listing whose first domain
  carries any token \<open>tok\<close> and integer memory figures makes \<open>get_info\<close> return normally
  with the state the table gives for \<open>tok\<close>.
\<close>

theorem power_state_mapping:
  "power_state_get (PStr ''running'' :: 'f pyval) = Inr RUNNING \<and>
   power_state_get (PStr ''blocked'' :: 'f pyval) = Inr RUNNING \<and>
   power_state_get (PStr ''paused'' :: 'f pyval) = Inr PAUSED \<and>
   power_state_get (PStr ''shutdown'' :: 'f pyval) = Inr SHUTDOWN \<and>
   power_state_get (PStr ''crashed'' :: 'f pyval) = Inr CRASHED \<and>
   power_state_get (PStr ''dying'' :: 'f pyval) = Inr CRASHED \<and>
   (tok \<notin> set [''running'', ''blocked'', ''paused'', ''shutdown'', ''crashed'', ''dying''] \<longrightarrow>
      power_state_get (PStr tok :: 'f pyval) = Inr NOSTATE) \<and>
   (\<exists>p. power_state_get (PStr tok :: 'f pyval) = Inr p) \<and>
   (env (cmds w) [path_xl, ''list'', ''-l'', name inst] = Exited 0 out err \<and>
    loads rt out = Inr (PList (PDict kvs # others)) \<and>
    map_of kvs ''state'' = Some (PStr tok) \<and>
    map_of kvs ''maxmem'' = Some (PInt a) \<and>
    map_of kvs ''mem'' = Some (PInt b) \<and>
    map_of kvs ''vcpus'' = Some n \<longrightarrow>
      fst (get_info rt env inst w) =
        Inr \<lparr>state = (case map_of POWER_STATE_MAP tok of None \<Rightarrow> NOSTATE | Some p \<Rightarrow> p),
             max_mem = PInt (a * 1024), mem = PInt (b * 1024), num_cpu = n, cpu_time = 0\<rparr>)"
proof -
  have "power_state_get (PStr ''running'' :: 'f pyval) = Inr RUNNING \<and>
   power_state_get (PStr ''blocked'' :: 'f pyval) = Inr RUNNING \<and>
   power_state_get (PStr ''paused'' :: 'f pyval) = Inr PAUSED \<and>
   power_state_get (PStr ''shutdown'' :: 'f pyval) = Inr SHUTDOWN \<and>
   power_state_get (PStr ''crashed'' :: 'f pyval) = Inr CRASHED \<and>
   power_state_get (PStr ''dying'' :: 'f pyval) = Inr CRASHED \<and>
   (tok \<notin> set [''running'', ''blocked'', ''paused'', ''shutdown'', ''crashed'', ''dying''] \<longrightarrow>
      power_state_get (PStr tok :: 'f pyval) = Inr NOSTATE) \<and>
   (\<exists>p. power_state_get (PStr tok :: 'f pyval) = Inr p)"
    by (simp add: POWER_STATE_MAP_def)
  then show ?thesis
    using get_info_running [of env w inst out err rt kvs others tok a b n] by blast
qed

theorem power_state_mapping_witness:
  "power_state_get (PStr ''migrating'' :: unit pyval) = Inr NOSTATE \<and>
   fst (get_info
          \<lparr>loads = (\<lambda>s. Inr (PList [PDict [(''state'', PStr ''migrating''), (''maxmem'', PInt 2),
                                            (''mem'', PInt 1), (''vcpus'', PInt 4)]])),
           float_is_zero = (\<lambda>f. True), float_times = (\<lambda>f i. ())\<rparr>
          (env_const (Exited 0 [] [])) vm1 world0)
     = Inr \<lparr>state = NOSTATE, max_mem = PInt 2048, mem = PInt 1024, num_cpu = PInt 4,
            cpu_time = 0\<rparr>"
  using power_state_mapping [of "''migrating''" "env_const (Exited 0 [] [])" world0 vm1 "[]" "[]"
      "\<lparr>loads = (\<lambda>s. Inr (PList [PDict [(''state'', PStr ''migrating''), (''maxmem'', PInt 2),
                                          (''mem'', PInt 1), (''vcpus'', PInt 4)]])),
        float_is_zero = (\<lambda>f. True), float_times = (\<lambda>f i. ())\<rparr> :: unit runtime"
      "[(''state'', PStr ''migrating''), (''maxmem'', PInt 2), (''mem'', PInt 1), (''vcpus'', PInt 4)]"
      "[]" 2 1 "PInt 4"]
  by (simp add: env_const_def POWER_STATE_MAP_def)

section \<open>Listing the domains\<close>

lemma fst_list_instances:
  "fst (list_instances env w) =
     (case fst (execute_xl env [''list''] w) of
        Inl e \<Rightarrow> Inl e
      | Inr out \<Rightarrow> names_loop (drop 1 (splitlines (stdout out))) [])"
  by (simp add: list_instances_def split: prod.split sum.split)

lemma names_loop_eq:
  "names_loop ls acc =
     (if \<exists>l \<in> set ls. split l = [] then Inl IndexError
      else Inr (acc @ map (\<lambda>l. hd (split l)) ls))"
  by (induction ls arbitrary: acc) (auto split: list.splits)

lemma split_from_empty_iff:
  "split_from cur s = [] \<longleftrightarrow> cur = [] \<and> (\<forall>c \<in> set s. is_space c)"
  by (induction s arbitrary: cur) auto

lemma split_empty_iff: "split l = [] \<longleftrightarrow> (\<forall>c \<in> set l. is_space c)"
  by (simp add: split_def split_from_empty_iff)

lemma split_from_token:
  "cur \<noteq> [] \<Longrightarrow>
   hd (split_from cur s) = cur @ takeWhile (\<lambda>c. \<not> is_space c) s"
  by (induction s arbitrary: cur) auto

lemma hd_split_from_nil:
  "\<not> (\<forall>c \<in> set s. is_space c) \<Longrightarrow>
   hd (split_from [] s) = takeWhile (\<lambda>c. \<not> is_space c) (dropWhile is_space s)"
  by (induction s) (auto simp add: split_from_token)

lemma hd_split:
  "split l \<noteq> [] \<Longrightarrow> hd (split l) = takeWhile (\<lambda>c. \<not> is_space c) (dropWhile is_space l)"
  by (simp add: split_def split_from_empty_iff hd_split_from_nil)

text \<open>
  Claim C7, as amended. When \<^verbatim>\<open>xl list\<close> succeeds, \<open>list_instances\<close> drops the first line
  of the output, if there is one, and returns the first whitespace-delimited token of
  every remaining line. No line is skipped: a remaining line that is empty or holds
  only whitespace ends the call with \<open>IndexError\<close>. An output without any line gives
  the empty list.
\<close>

theorem list_instances_tokens:
  "env (cmds w) [path_xl, ''list''] = Exited 0 out err \<longrightarrow>
     fst (list_instances env w) =
       (if \<exists>l \<in> set (drop 1 (splitlines out)). \<forall>c \<in> set l. is_space c then Inl IndexError
        else Inr (map (\<lambda>l. takeWhile (\<lambda>c. \<not> is_space c) (dropWhile is_space l))
                    (drop 1 (splitlines out))))"
proof
  assume a: "env (cmds w) [path_xl, ''list''] = Exited 0 out err"
  have "map (\<lambda>l. hd (split l)) (drop 1 (splitlines out)) =
        map (\<lambda>l. takeWhile (\<lambda>c. \<not> is_space c) (dropWhile is_space l)) (drop 1 (splitlines out))"
    if "\<not> (\<exists>l \<in> set (drop 1 (splitlines out)). split l = [])"
    using that by (intro map_cong refl hd_split) auto
  then show "fst (list_instances env w) =
       (if \<exists>l \<in> set (drop 1 (splitlines out)). \<forall>c \<in> set l. is_space c then Inl IndexError
        else Inr (map (\<lambda>l. takeWhile (\<lambda>c. \<not> is_space c) (dropWhile is_space l))
                    (drop 1 (splitlines out))))"
    using a by (simp add: fst_list_instances execute_xl_exit0 names_loop_eq split_empty_iff)
qed

theorem list_instances_tokens_witness:
  "fst (list_instances
          (env_listing ''NAME STATE MEM VCPUS\<newline>vm1 running 512 2\<newline>vm2 paused 256 1'') world0)
     = Inr [''vm1'', ''vm2'']"
  using list_instances_tokens [of
      "env_listing ''NAME STATE MEM VCPUS\<newline>vm1 running 512 2\<newline>vm2 paused 256 1''" world0
      "''NAME STATE MEM VCPUS\<newline>vm1 running 512 2\<newline>vm2 paused 256 1''" "[]"]
  by (simp add: env_listing_def splitlines_def is_linebreak_def is_space_def)

text \<open>
  Claim C7 as stated fails: an empty line among the data lines is not skipped but
  raises \<open>IndexError\<close>, and an output in which even the header is missing returns the
  empty list instead of failing.
\<close>

theorem list_instances_counterexample:
  "fst (list_instances (env_listing ''NAME STATE\<newline>vm1 running\<newline>\<newline>vm2 paused'') world0)
     = Inl IndexError \<and>
   fst (list_instances (env_listing []) world0) = Inr []"
  by (simp add: list_instances_def execute_xl_def subprocess_run_def env_listing_def Let_def
        splitlines_def is_linebreak_def split_def is_space_def)

section \<open>Printing and reading decimal numbers\<close>

text \<open>The equation of \<open>str_nat\<close> is applied by hand: as a rewrite rule it would not end.\<close>

declare str_nat.simps [simp del]

lemma digit_char_cases:
  "d < 10 \<Longrightarrow> d = 0 \<or> d = 1 \<or> d = 2 \<or> d = 3 \<or> d = 4 \<or> d = 5 \<or> d = 6 \<or> d = 7 \<or> d = 8 \<or> d = (9::nat)"
  by arith

lemma digit_char_digit:
  assumes "d < 10"
  shows "is_digit (digit_char d) \<and> digit_val (digit_char d) = d"
  using digit_char_cases [OF assms]
  by (auto simp add: is_digit_def digit_char_def digit_val_def char_of_eq_iff)

lemma str_nat_digits: "\<forall>c \<in> set (str_nat n). is_digit c"
proof (induction n rule: str_nat.induct)
  case (1 n)
  then show ?case
    by (subst str_nat.simps) (auto simp add: digit_char_digit)
qed

lemma str_nat_nonempty: "str_nat n \<noteq> []"
  by (subst str_nat.simps) simp

lemma digits_ok_all:
  "\<forall>c \<in> set s. is_digit c \<Longrightarrow> digits_ok prev s = (s \<noteq> [] \<or> prev)"
  by (induction s arbitrary: prev) auto

lemma is_digit_not_underscore: "is_digit c \<Longrightarrow> c \<noteq> CHR ''_''"
  by (auto simp add: is_digit_def)

lemma filter_digits:
  "\<forall>c \<in> set s. is_digit c \<Longrightarrow> filter (\<lambda>c. c \<noteq> CHR ''_'') s = s"
  by (induction s) (auto simp add: is_digit_not_underscore)

lemma digits_value_str_nat: "digits_value (str_nat n) = n"
proof (induction n rule: str_nat.induct)
  case (1 n)
  show ?case
  proof (cases "n < 10")
    case True
    then show ?thesis
      by (subst str_nat.simps) (simp add: digits_value_def digit_char_digit is_digit_not_underscore)
  next
    case False
    have d: "\<forall>c \<in> set (str_nat (n div 10)). is_digit c" by (rule str_nat_digits)
    have "digits_value (str_nat (n div 10)) = n div 10" using 1 False by simp
    then have f: "foldl (\<lambda>a c. 10 * a + digit_val c) 0 (str_nat (n div 10)) = n div 10"
      by (simp add: digits_value_def filter_digits [OF d])
    show ?thesis
      using False f
      by (subst str_nat.simps)
         (simp add: digits_value_def filter_digits [OF d] digit_char_digit is_digit_not_underscore)
  qed
qed

lemma nat_literal_str_nat: "nat_literal (str_nat n) = Some n"
  by (simp add: nat_literal_def digits_ok_all str_nat_digits str_nat_nonempty digits_value_str_nat)

lemma hd_str_nat_digit: "is_digit (hd (str_nat n))"
  using str_nat_digits [of n] str_nat_nonempty [of n] by (cases "str_nat n") auto

lemma py_int_str_int: "py_int (str_int i) = Some i"
proof (cases "i < 0")
  case True
  then show ?thesis
    by (simp add: py_int_def str_int_def nat_literal_str_nat)
next
  case False
  obtain c cs where s: "str_nat (nat i) = c # cs"
    using str_nat_nonempty [of "nat i"] by (cases "str_nat (nat i)") auto
  have "is_digit c" using hd_str_nat_digit [of "nat i"] s by simp
  then have "c \<noteq> CHR ''-''" "c \<noteq> CHR ''+''"
    by (auto simp add: is_digit_def)
  then show ?thesis
    using False s nat_literal_str_nat [of "nat i"]
    by (simp add: py_int_def str_int_def)
qed


lemma str_int_chars: "c \<in> set (str_int i) \<Longrightarrow> c \<in> set ''-0123456789''"
proof (cases "i < 0")
  case True
  assume "c \<in> set (str_int i)"
  then have "c = CHR ''-'' \<or> c \<in> set (str_nat (nat (- i)))"
    using True by (simp add: str_int_def)
  then have "c = CHR ''-'' \<or> is_digit c"
    using str_nat_digits [of "nat (- i)"] by blast
  then show ?thesis by (auto simp add: is_digit_def)
next
  case False
  assume "c \<in> set (str_int i)"
  then have "c \<in> set (str_nat (nat i))"
    using False by (simp add: str_int_def)
  then have "is_digit c"
    using str_nat_digits [of "nat i"] by blast
  then show ?thesis by (auto simp add: is_digit_def)
qed

section \<open>Lines and fields\<close>

lemma split_on_none: "sep \<notin> set s \<Longrightarrow> split_on sep s = [s]"
  by (induction s) auto

lemma split_on_sep:
  "sep \<notin> set xs \<Longrightarrow> split_on sep (xs @ [sep] @ ys) = xs # split_on sep ys"
  by (induction xs) auto

lemma dropWhile_hd: "xs \<noteq> [] \<Longrightarrow> \<not> P (hd xs) \<Longrightarrow> dropWhile P xs = xs"
  by (cases xs) auto

lemma strip_plain:
  assumes "s \<noteq> []" and "\<not> is_space (hd s)" and "\<not> is_space (last s)"
  shows "strip s = s"
proof -
  have "dropWhile is_space s = s"
    using assms(1,2) by (rule dropWhile_hd)
  moreover have "dropWhile is_space (rev s) = rev s"
    using assms(1,3) by (intro dropWhile_hd) (simp_all add: hd_rev)
  ultimately show ?thesis
    by (simp add: strip_def)
qed

lemma strip_leading: "is_space c \<Longrightarrow> strip (c # s) = strip s"
  by (simp add: strip_def)

lemma str_int_nonempty: "str_int i \<noteq> []"
  by (simp add: str_int_def str_nat_nonempty)

lemma strip_str_int: "strip (str_int i) = str_int i"
proof (rule strip_plain)
  show ne: "str_int i \<noteq> []" by (rule str_int_nonempty)
  have "hd (str_int i) \<in> set (str_int i)" using ne by simp
  then have "hd (str_int i) \<in> set ''-0123456789''" by (rule str_int_chars)
  then show "\<not> is_space (hd (str_int i))" by (auto simp add: is_space_def)
  have "last (str_int i) \<in> set (str_int i)" using ne by simp
  then have "last (str_int i) \<in> set ''-0123456789''" by (rule str_int_chars)
  then show "\<not> is_space (last (str_int i))" by (auto simp add: is_space_def)
qed

lemma kb_value_line:
  assumes "CHR '':'' \<notin> set key"
  shows "kb_value (key @ '': '' @ str_int v) = Inr v"
proof -
  have "CHR '':'' \<notin> set ('' '' @ str_int v)"
    using str_int_chars [of "CHR '':''" v] by auto
  then have "split_on (CHR '':'') ('' '' @ str_int v) = ['' '' @ str_int v]"
    by (rule split_on_none)
  then have "split_on (CHR '':'') (key @ [CHR '':''] @ ('' '' @ str_int v)) = [key, '' '' @ str_int v]"
    by (simp only: split_on_sep [OF assms])
  then have "split_on (CHR '':'') (key @ '': '' @ str_int v) = [key, CHR '' '' # str_int v]"
    by simp
  then show ?thesis
    by (simp add: kb_value_def strip_leading is_space_def strip_str_int py_int_str_int)
qed


lemma contains_hd: "contains (p # ps) s \<Longrightarrow> p \<in> set s"
  by (induction s) auto

lemma splitlines_from_plain:
  "\<forall>c \<in> set a. c \<noteq> CR \<and> \<not> is_linebreak c \<Longrightarrow>
   splitlines_from cur (a @ b) = splitlines_from (cur @ a) b"
  by (induction a arbitrary: cur) auto

lemma str_int_plain: "\<forall>c \<in> set (str_int i). c \<noteq> CR \<and> \<not> is_linebreak c"
proof
  fix c assume "c \<in> set (str_int i)"
  then have "c \<in> set ''-0123456789''" by (rule str_int_chars)
  then show "c \<noteq> CR \<and> \<not> is_linebreak c" by (auto simp add: is_linebreak_def)
qed


lemma splitlines_two:
  assumes "\<forall>c \<in> set a. c \<noteq> CR \<and> \<not> is_linebreak c" and "\<forall>c \<in> set b. c \<noteq> CR \<and> \<not> is_linebreak c"
    and "b \<noteq> []"
  shows "splitlines (a @ [LF] @ b) = [a, b]"
proof -
  have 1: "splitlines_from [] (a @ ([LF] @ b)) = splitlines_from ([] @ a) ([LF] @ b)"
    using assms(1) by (rule splitlines_from_plain)
  have 2: "splitlines_from [] (b @ []) = splitlines_from ([] @ b) []"
    using assms(2) by (rule splitlines_from_plain)
  have 3: "splitlines_from a ([LF] @ b) = a # splitlines_from [] b"
    by (simp add: is_linebreak_def)
  have 4: "splitlines_from b [] = [b]"
    using assms(3) by simp
  show ?thesis
    using 1 2 3 4 by (simp add: splitlines_def del: splitlines_from.simps)
qed


section \<open>Host resources\<close>

lemma total_line_plain:
  "\<forall>c \<in> set (''total_memory : '' @ str_int t). c \<noteq> CR \<and> \<not> is_linebreak c"
  using str_int_plain [of t] by (auto simp add: is_linebreak_def)

lemma free_line_plain:
  "\<forall>c \<in> set (''free_memory : '' @ str_int f). c \<noteq> CR \<and> \<not> is_linebreak c"
  using str_int_plain [of f] by (auto simp add: is_linebreak_def)

lemma memory_info_lines:
  "splitlines (''total_memory : '' @ str_int t @ [LF] @ ''free_memory : '' @ str_int f) =
     [''total_memory : '' @ str_int t, ''free_memory : '' @ str_int f]"
proof -
  have "splitlines ((''total_memory : '' @ str_int t) @ [LF] @ (''free_memory : '' @ str_int f)) =
          [''total_memory : '' @ str_int t, ''free_memory : '' @ str_int f]"
    using total_line_plain free_line_plain by (rule splitlines_two) simp
  then show ?thesis by simp
qed


lemma total_not_in_free_line:
  "\<not> contains ''total_memory'' (''free_memory : '' @ str_int f)"
proof
  assume "contains ''total_memory'' (''free_memory : '' @ str_int f)"
  then have "CHR ''t'' \<in> set (''free_memory : '' @ str_int f)"
    using contains_hd [of "CHR ''t''" "''otal_memory''" "''free_memory : '' @ str_int f"] by simp
  then show False
    using str_int_chars [of "CHR ''t''" f] by auto
qed

lemma memory_loop_two_lines:
  "memory_loop [''total_memory : '' @ str_int t, ''free_memory : '' @ str_int f] (a, b) = Inr (t, f)"
proof -
  have k1: "kb_value (''total_memory : '' @ str_int t) = Inr t"
    using kb_value_line [of "''total_memory ''" t] by simp
  have k2: "kb_value (''free_memory : '' @ str_int f) = Inr f"
    using kb_value_line [of "''free_memory ''" f] by simp
  have c1: "contains ''total_memory'' (''total_memory : '' @ str_int t)" by simp
  have c2: "contains ''free_memory'' (''free_memory : '' @ str_int f)" by simp
  show ?thesis
    by (simp only: memory_loop.simps k1 k2 c1 c2 total_not_in_free_line if_True if_False sum.case)
qed


lemma fst_get_available_resource:
  "fst (get_available_resource env nodename w) =
     (case fst (execute_xl env [''info'', ''-n''] w) of
        Inl e \<Rightarrow> Inl e
      | Inr memory_info \<Rightarrow>
          (case memory_loop (splitlines (stdout memory_info)) (0, 0) of
             Inl e \<Rightarrow> Inl e
           | Inr (total_memory_kb, free_memory_kb) \<Rightarrow>
               (case fst (execute_xl env [''info'', ''-n'', ''cpu'']
                            (snd (execute_xl env [''info'', ''-n''] w))) of
                  Inl e \<Rightarrow> Inl e
                | Inr cpu_info_out \<Rightarrow>
                    Inr \<lparr>vcpus = int (length (splitlines (stdout cpu_info_out))),
                         vcpus_used = 0,
                         memory_mb = total_memory_kb div 1024,
                         memory_mb_used = (total_memory_kb - free_memory_kb) div 1024,
                         local_gb = 0,
                         local_gb_used = 0,
                         disk_available_least = 0,
                         hypervisor_type = ''xen'',
                         hypervisor_version = 4181,
                         hypervisor_hostname = nodename,
                         cpu_info = ''{}'',
                         supported_instances = [],
                         numa_topology = None\<rparr>)))"
  by (simp add: get_available_resource_def Let_def split: prod.split sum.split)

lemma get_available_resource_ok:
  assumes "env (cmds w) [path_xl, ''info'', ''-n''] = Exited 0 mem_out err1"
    and "memory_loop (splitlines mem_out) (0, 0) = Inr (t, f)"
    and "env (cmds w @ [[path_xl, ''info'', ''-n'']]) [path_xl, ''info'', ''-n'', ''cpu'']
           = Exited 0 cpu_out err2"
  shows "fst (get_available_resource env nodename w) =
     Inr \<lparr>vcpus = int (length (splitlines cpu_out)),
          vcpus_used = 0,
          memory_mb = t div 1024,
          memory_mb_used = (t - f) div 1024,
          local_gb = 0,
          local_gb_used = 0,
          disk_available_least = 0,
          hypervisor_type = ''xen'',
          hypervisor_version = 4181,
          hypervisor_hostname = nodename,
          cpu_info = ''{}'',
          supported_instances = [],
          numa_topology = None\<rparr>"
proof -
  have 1: "fst (execute_xl env [''info'', ''-n''] w) =
             Inr \<lparr>returncode = 0, stdout = mem_out, stderr = err1\<rparr>"
    using assms(1) by (rule execute_xl_exit0)
  have "env (cmds (snd (execute_xl env [''info'', ''-n''] w))) (path_xl # [''info'', ''-n'', ''cpu''])
          = Exited 0 cpu_out err2"
    using assms(3) by simp
  then have 2: "fst (execute_xl env [''info'', ''-n'', ''cpu''] (snd (execute_xl env [''info'', ''-n''] w))) =
             Inr \<lparr>returncode = 0, stdout = cpu_out, stderr = err2\<rparr>"
    by (rule execute_xl_exit0)
  show ?thesis
    by (simp add: fst_get_available_resource 1 2 assms(2))
qed

lemma memory_loop_unmatched:
  "\<forall>l \<in> set ls. \<not> contains ''total_memory'' l \<and> \<not> contains ''free_memory'' l \<Longrightarrow>
   memory_loop ls (t, f) = Inr (t, f)"
  by (induction ls) auto

text \<open>
  Claim C6. When both queries succeed, \<open>get_available_resource\<close> returns \<open>memory_mb\<close> as
  the total memory counter divided by 1024, \<open>memory_mb_used\<close> as total minus free divided
  by 1024 (both floor divisions), and \<open>vcpus\<close> as the number of lines of the cpu query.
  The counters are what the loop over the memory lines leaves; for the output made of
  the two lines \<^verbatim>\<open>total_memory : t\<close> and \<^verbatim>\<open>free_memory : f\<close> they are \<open>t\<close> and \<open>f\<close>,
  for all integers. The example of the claim (8192, 2048, four cpu lines, giving 8, 6
  and 4) follows the theorem.
\<close>

theorem get_available_resource_arithmetic:
  "(env (cmds w) [path_xl, ''info'', ''-n''] = Exited 0 mem_out err1 \<and>
    memory_loop (splitlines mem_out) (0, 0) = Inr (total_memory_kb, free_memory_kb) \<and>
    env (cmds w @ [[path_xl, ''info'', ''-n'']]) [path_xl, ''info'', ''-n'', ''cpu'']
      = Exited 0 cpu_out err2 \<longrightarrow>
      fst (get_available_resource env nodename w) =
        Inr \<lparr>vcpus = int (length (splitlines cpu_out)),
             vcpus_used = 0,
             memory_mb = total_memory_kb div 1024,
             memory_mb_used = (total_memory_kb - free_memory_kb) div 1024,
             local_gb = 0,
             local_gb_used = 0,
             disk_available_least = 0,
             hypervisor_type = ''xen'',
             hypervisor_version = 4181,
             hypervisor_hostname = nodename,
             cpu_info = ''{}'',
             supported_instances = [],
             numa_topology = None\<rparr>) \<and>
   memory_loop (splitlines (''total_memory : '' @ str_int t @ [LF] @ ''free_memory : '' @ str_int f))
     (0, 0) = Inr (t, f)"
  using get_available_resource_ok [of env w mem_out err1 total_memory_kb free_memory_kb cpu_out err2 nodename]
  by (simp only: memory_info_lines memory_loop_two_lines) blast

lemma digit_char_values:
  "digit_char 0 = CHR ''0''" "digit_char 1 = CHR ''1''" "digit_char (Suc 0) = CHR ''1''"
  "digit_char 2 = CHR ''2''" "digit_char 3 = CHR ''3''" "digit_char 4 = CHR ''4''"
  "digit_char 5 = CHR ''5''" "digit_char 6 = CHR ''6''" "digit_char 7 = CHR ''7''"
  "digit_char 8 = CHR ''8''" "digit_char 9 = CHR ''9''"
  by (simp_all add: digit_char_def char_of_eq_iff)

lemma str_int_examples:
  "str_int 8192 = ''8192''" "str_int 2048 = ''2048''" "str_int 512 = ''512''"
  "str_int 2 = ''2''" "str_int 1 = ''1''"
  by (simp_all add: str_int_def str_nat.simps digit_char_values)

theorem get_available_resource_arithmetic_witness:
  "fst (get_available_resource
          (env_info ''total_memory : 8192\<newline>free_memory : 2048'' ''cpu0\<newline>cpu1\<newline>cpu2\<newline>cpu3'')
          ''node1'' world0) =
     Inr \<lparr>vcpus = 4, vcpus_used = 0, memory_mb = 8, memory_mb_used = 6,
          local_gb = 0, local_gb_used = 0, disk_available_least = 0,
          hypervisor_type = ''xen'', hypervisor_version = 4181,
          hypervisor_hostname = ''node1'', cpu_info = ''{}'',
          supported_instances = [], numa_topology = None\<rparr>"
proof -
  note t = get_available_resource_arithmetic [of
      "env_info ''total_memory : 8192\<newline>free_memory : 2048'' ''cpu0\<newline>cpu1\<newline>cpu2\<newline>cpu3''"
      world0 "''total_memory : 8192\<newline>free_memory : 2048''" "[]" 8192 2048
      "''cpu0\<newline>cpu1\<newline>cpu2\<newline>cpu3''" "[]" "''node1''" 8192 2048]
  have m: "memory_loop (splitlines ''total_memory : 8192\<newline>free_memory : 2048'') (0, 0)
             = Inr (8192, 2048)"
    using t by (simp add: str_int_examples)
  have c: "length (splitlines ''cpu0\<newline>cpu1\<newline>cpu2\<newline>cpu3'') = 4"
    by (simp add: splitlines_def is_linebreak_def)
  show ?thesis
    using t m c by (simp add: env_info_def world0_def path_xl_def del: memory_loop.simps)
qed


text \<open>
  Claim C8. Every snapshot that \<open>get_available_resource\<close> returns, for every node name and
  whatever the hypervisor printed, has \<open>vcpus_used\<close>, \<open>local_gb\<close>, \<open>local_gb_used\<close> and
  \<open>disk_available_least\<close> equal to 0; and a snapshot is returned whenever both queries
  exit with status 0 and the loop over the memory lines ends normally.
\<close>

theorem get_available_resource_constants:
  "(fst (get_available_resource env nodename w) = Inr r \<longrightarrow>
      vcpus_used r = 0 \<and> local_gb r = 0 \<and> local_gb_used r = 0 \<and> disk_available_least r = 0) \<and>
   (env (cmds w) [path_xl, ''info'', ''-n''] = Exited 0 mem_out err1 \<and>
    memory_loop (splitlines mem_out) (0, 0) = Inr (total_memory_kb, free_memory_kb) \<and>
    env (cmds w @ [[path_xl, ''info'', ''-n'']]) [path_xl, ''info'', ''-n'', ''cpu'']
      = Exited 0 cpu_out err2 \<longrightarrow>
      (\<exists>r'. fst (get_available_resource env nodename w) = Inr r' \<and>
            vcpus_used r' = 0 \<and> local_gb r' = 0 \<and> local_gb_used r' = 0 \<and>
            disk_available_least r' = 0))"
proof (intro conjI impI)
  assume "fst (get_available_resource env nodename w) = Inr r"
  then have "vcpus_used r = 0 \<and> local_gb r = 0 \<and> local_gb_used r = 0 \<and> disk_available_least r = 0"
    by (auto simp add: fst_get_available_resource split: sum.splits prod.splits)
  then show "vcpus_used r = 0" "local_gb r = 0" "local_gb_used r = 0" "disk_available_least r = 0"
    by simp_all
next
  assume "env (cmds w) [path_xl, ''info'', ''-n''] = Exited 0 mem_out err1 \<and>
    memory_loop (splitlines mem_out) (0, 0) = Inr (total_memory_kb, free_memory_kb) \<and>
    env (cmds w @ [[path_xl, ''info'', ''-n'']]) [path_xl, ''info'', ''-n'', ''cpu'']
      = Exited 0 cpu_out err2"
  then show "\<exists>r'. fst (get_available_resource env nodename w) = Inr r' \<and>
            vcpus_used r' = 0 \<and> local_gb r' = 0 \<and> local_gb_used r' = 0 \<and>
            disk_available_least r' = 0"
    using get_available_resource_ok [of env w mem_out err1 total_memory_kb free_memory_kb
        cpu_out err2 nodename]
    by simp
qed

theorem get_available_resource_constants_witness:
  "(case fst (get_available_resource
                (env_info ''total_memory : 8192\<newline>free_memory : 2048'' ''cpu0\<newline>cpu1'')
                ''node1'' world0) of
      Inl e \<Rightarrow> False
    | Inr r \<Rightarrow> vcpus_used r = 0 \<and> local_gb r = 0 \<and> local_gb_used r = 0 \<and>
               disk_available_least r = 0)"
proof -
  have m: "memory_loop (splitlines ''total_memory : 8192\<newline>free_memory : 2048'') (0, 0)
             = Inr (8192, 2048)"
    using memory_info_lines [of 8192 2048] memory_loop_two_lines [of 8192 2048 0 0]
    by (simp add: str_int_examples del: memory_loop.simps)
  obtain r' where
    "fst (get_available_resource
            (env_info ''total_memory : 8192\<newline>free_memory : 2048'' ''cpu0\<newline>cpu1'')
            ''node1'' world0) = Inr r'"
    "vcpus_used r' = 0 \<and> local_gb r' = 0 \<and> local_gb_used r' = 0 \<and> disk_available_least r' = 0"
    using m get_available_resource_constants [of
        "env_info ''total_memory : 8192\<newline>free_memory : 2048'' ''cpu0\<newline>cpu1''"
        "''node1''" world0
        "\<lparr>vcpus = 2, vcpus_used = 0, memory_mb = 8, memory_mb_used = 6,
          local_gb = 0, local_gb_used = 0, disk_available_least = 0,
          hypervisor_type = ''xen'', hypervisor_version = 4181,
          hypervisor_hostname = ''node1'', cpu_info = ''{}'',
          supported_instances = [], numa_topology = None\<rparr>"
        "''total_memory : 8192\<newline>free_memory : 2048''" "[]"
        8192 2048 "''cpu0\<newline>cpu1''" "[]"]
    by (auto simp add: env_info_def world0_def path_xl_def simp del: memory_loop.simps)
  then show ?thesis by simp
qed

text \<open>
  Claim C9. When no line of the memory query mentions \<^verbatim>\<open>total_memory\<close> or
  \<^verbatim>\<open>free_memory\<close>, the loop over the lines does not fail and leaves both counters at 0;
  \<open>get_available_resource\<close> then returns \<open>memory_mb = 0\<close> and \<open>memory_mb_used = 0\<close> once
  the cpu query succeeds, and it can fail only with the failure of that cpu query.
\<close>

theorem get_available_resource_memory_defaults:
  "env (cmds w) [path_xl, ''info'', ''-n''] = Exited 0 mem_out err1 \<and>
   (\<forall>l \<in> set (splitlines mem_out).
      \<not> contains ''total_memory'' l \<and> \<not> contains ''free_memory'' l) \<longrightarrow>
     memory_loop (splitlines mem_out) (0, 0) = Inr (0, 0) \<and>
     (env (cmds w @ [[path_xl, ''info'', ''-n'']]) [path_xl, ''info'', ''-n'', ''cpu'']
        = Exited 0 cpu_out err2 \<longrightarrow>
        fst (get_available_resource env nodename w) =
          Inr \<lparr>vcpus = int (length (splitlines cpu_out)),
               vcpus_used = 0,
               memory_mb = 0,
               memory_mb_used = 0,
               local_gb = 0,
               local_gb_used = 0,
               disk_available_least = 0,
               hypervisor_type = ''xen'',
               hypervisor_version = 4181,
               hypervisor_hostname = nodename,
               cpu_info = ''{}'',
               supported_instances = [],
               numa_topology = None\<rparr>) \<and>
     (fst (get_available_resource env nodename w) = Inl e \<longrightarrow>
        fst (execute_xl env [''info'', ''-n'', ''cpu''] (snd (execute_xl env [''info'', ''-n''] w)))
          = Inl e)"
proof (intro impI)
  assume a: "env (cmds w) [path_xl, ''info'', ''-n''] = Exited 0 mem_out err1 \<and>
   (\<forall>l \<in> set (splitlines mem_out).
      \<not> contains ''total_memory'' l \<and> \<not> contains ''free_memory'' l)"
  then have m: "memory_loop (splitlines mem_out) (0, 0) = Inr (0, 0)"
    by (intro memory_loop_unmatched) simp
  have x: "fst (execute_xl env [''info'', ''-n''] w) =
             Inr \<lparr>returncode = 0, stdout = mem_out, stderr = err1\<rparr>"
    using a by (intro execute_xl_exit0) simp
  have "fst (get_available_resource env nodename w) = Inl e \<longrightarrow>
        fst (execute_xl env [''info'', ''-n'', ''cpu''] (snd (execute_xl env [''info'', ''-n''] w)))
          = Inl e"
    by (simp add: fst_get_available_resource x m split: sum.splits)
  moreover have "env (cmds w @ [[path_xl, ''info'', ''-n'']]) [path_xl, ''info'', ''-n'', ''cpu'']
        = Exited 0 cpu_out err2 \<longrightarrow>
        fst (get_available_resource env nodename w) =
          Inr \<lparr>vcpus = int (length (splitlines cpu_out)),
               vcpus_used = 0,
               memory_mb = 0,
               memory_mb_used = 0,
               local_gb = 0,
               local_gb_used = 0,
               disk_available_least = 0,
               hypervisor_type = ''xen'',
               hypervisor_version = 4181,
               hypervisor_hostname = nodename,
               cpu_info = ''{}'',
               supported_instances = [],
               numa_topology = None\<rparr>"
    using a m get_available_resource_ok [of env w mem_out err1 0 0 cpu_out err2 nodename]
    by simp
  ultimately show "memory_loop (splitlines mem_out) (0, 0) = Inr (0, 0) \<and>
     (env (cmds w @ [[path_xl, ''info'', ''-n'']]) [path_xl, ''info'', ''-n'', ''cpu'']
        = Exited 0 cpu_out err2 \<longrightarrow>
        fst (get_available_resource env nodename w) =
          Inr \<lparr>vcpus = int (length (splitlines cpu_out)),
               vcpus_used = 0,
               memory_mb = 0,
               memory_mb_used = 0,
               local_gb = 0,
               local_gb_used = 0,
               disk_available_least = 0,
               hypervisor_type = ''xen'',
               hypervisor_version = 4181,
               hypervisor_hostname = nodename,
               cpu_info = ''{}'',
               supported_instances = [],
               numa_topology = None\<rparr>) \<and>
     (fst (get_available_resource env nodename w) = Inl e \<longrightarrow>
        fst (execute_xl env [''info'', ''-n'', ''cpu''] (snd (execute_xl env [''info'', ''-n''] w)))
          = Inl e)"
    using m by blast
qed

theorem get_available_resource_memory_defaults_witness:
  "fst (get_available_resource (env_info ''host : xen1\<newline>xen_major : 4'' ''cpu0\<newline>cpu1'')
          ''node1'' world0) =
     Inr \<lparr>vcpus = 2, vcpus_used = 0, memory_mb = 0, memory_mb_used = 0,
          local_gb = 0, local_gb_used = 0, disk_available_least = 0,
          hypervisor_type = ''xen'', hypervisor_version = 4181,
          hypervisor_hostname = ''node1'', cpu_info = ''{}'',
          supported_instances = [], numa_topology = None\<rparr>"
proof -
  have l: "splitlines ''host : xen1\<newline>xen_major : 4'' = [''host : xen1'', ''xen_major : 4'']"
    by (simp add: splitlines_def is_linebreak_def)
  have c: "length (splitlines ''cpu0\<newline>cpu1'') = 2"
    by (simp add: splitlines_def is_linebreak_def)
  show ?thesis
    using get_available_resource_memory_defaults [of
        "env_info ''host : xen1\<newline>xen_major : 4'' ''cpu0\<newline>cpu1''" world0
        "''host : xen1\<newline>xen_major : 4''" "[]" "''cpu0\<newline>cpu1''" "[]" "''node1''" ValueError]
      c
    by (simp add: env_info_def world0_def path_xl_def l)
qed

section \<open>Configuration synthesis\<close>









end
